theory Spec2Isabelle
  imports Main "HOL-Library.Sublist"
begin

section \<open>Python values, exceptions and path functions\<close>

text \<open>
  The two modules \<^verbatim>\<open>api/github_client.py\<close> and \<^verbatim>\<open>api/rest_api.py\<close> are embedded
  function by function. An exception is a value: its class and its message (what
  \<^verbatim>\<open>str(e)\<close> prints). Every class below derives from Python's \<^verbatim>\<open>Exception\<close>, so an
  \<^verbatim>\<open>except Exception\<close> clause catches each of them.
\<close>

datatype exn_class =
    HTTPError
  | RuntimeError
  | TypeError
  | AttributeError
  | KeyError
  | BadRequest
  | FileExistsError
  | FileNotFoundError
  | NotADirectoryError
  | IsADirectoryError
  | RecursionError
  | OtherException

datatype py_error = Raised exn_class string

fun str_of :: "py_error \<Rightarrow> string" where
  "str_of (Raised c msg) = msg"

text \<open>JSON values as Python reads them, and Python's truth test on them.\<close>

datatype pyval =
    PNone
  | PBool bool
  | PInt int
  | PStr string
  | PList "pyval list"
  | PDict "(string \<times> pyval) list"

fun truthy :: "pyval \<Rightarrow> bool" where
  "truthy PNone = False"
| "truthy (PBool b) = b"
| "truthy (PInt i) = (i \<noteq> 0)"
| "truthy (PStr s) = (s \<noteq> [])"
| "truthy (PList xs) = (xs \<noteq> [])"
| "truthy (PDict kvs) = (kvs \<noteq> [])"

text \<open>\<^verbatim>\<open>a or b\<close>\<close>

definition py_or :: "pyval \<Rightarrow> pyval \<Rightarrow> pyval" where
  "py_or a b = (if truthy a then a else b)"

text \<open>
  A Python \<^verbatim>\<open>dict\<close> is an association list in insertion order whose keys are distinct.
  \<^verbatim>\<open>d[k] = v\<close> replaces the value in place when \<^verbatim>\<open>k\<close> is present and appends the pair
  otherwise.
\<close>

fun dict_set :: "'k \<Rightarrow> 'v \<Rightarrow> ('k \<times> 'v) list \<Rightarrow> ('k \<times> 'v) list" where
  "dict_set k v [] = [(k, v)]"
| "dict_set k v ((k', v') # d) =
     (if k' = k then (k, v) # d else (k', v') # dict_set k v d)"

text \<open>\<^verbatim>\<open>payload.get(key)\<close>: only a dict has the method; a missing key gives \<^verbatim>\<open>None\<close>.\<close>

fun py_get :: "pyval \<Rightarrow> string \<Rightarrow> py_error + pyval" where
  "py_get (PDict kvs) key = Inr (case map_of kvs key of None \<Rightarrow> PNone | Some v \<Rightarrow> v)"
| "py_get v key = Inl (Raised AttributeError ''object has no attribute get'')"

text \<open>\<^verbatim>\<open>s.rfind(c)\<close>: the index of the last occurrence of \<^verbatim>\<open>c\<close>, or \<^verbatim>\<open>-1\<close>.\<close>

fun rfind_from :: "char \<Rightarrow> string \<Rightarrow> int \<Rightarrow> int \<Rightarrow> int" where
  "rfind_from c [] i found = found"
| "rfind_from c (x # xs) i found = rfind_from c xs (i + 1) (if x = c then i else found)"

definition py_rfind :: "char \<Rightarrow> string \<Rightarrow> int" where
  "py_rfind c s = rfind_from c s 0 (- 1)"

text \<open>\<^verbatim>\<open>p[i:j]\<close> for \<^verbatim>\<open>0 <= i\<close>.\<close>

definition py_slice :: "string \<Rightarrow> int \<Rightarrow> int \<Rightarrow> string" where
  "py_slice p i j = take (nat (j - i)) (drop (nat i) p)"

text \<open>
  \<^verbatim>\<open>os.path.splitext\<close> (posixpath): the extension starts at the last dot of the last path
  component, unless only dots come before it in that component. The library's loop
  looks for a character other than a dot between the component's start and the last
  dot.
\<close>

fun has_non_dot :: "string \<Rightarrow> bool" where
  "has_non_dot [] = False"
| "has_non_dot (c # cs) = (if c \<noteq> CHR ''.'' then True else has_non_dot cs)"

definition splitext :: "string \<Rightarrow> string \<times> string" where
  "splitext p =
     (let sepIndex = py_rfind CHR ''/'' p;
          dotIndex = py_rfind CHR ''.'' p
      in if dotIndex > sepIndex \<and> has_non_dot (py_slice p (sepIndex + 1) dotIndex)
         then (take (nat dotIndex) p, drop (nat dotIndex) p)
         else (p, []))"

text \<open>\<^verbatim>\<open>os.path.join(a, b)\<close> (posixpath), for two arguments.\<close>

definition path_join :: "string \<Rightarrow> string \<Rightarrow> string" where
  "path_join a b =
     (if b \<noteq> [] \<and> hd b = CHR ''/'' then b
      else if a = [] \<or> last a = CHR ''/'' then a @ b
      else a @ ''/'' @ b)"

text \<open>\<^verbatim>\<open>os.path.basename\<close> and \<^verbatim>\<open>os.path.dirname\<close> (posixpath).\<close>

definition basename :: "string \<Rightarrow> string" where
  "basename p = drop (nat (py_rfind CHR ''/'' p + 1)) p"

definition rstrip_slash :: "string \<Rightarrow> string" where
  "rstrip_slash s = rev (dropWhile (\<lambda>c. c = CHR ''/'') (rev s))"

definition dirname :: "string \<Rightarrow> string" where
  "dirname p =
     (let head = take (nat (py_rfind CHR ''/'' p + 1)) p
      in if head \<noteq> [] \<and> head \<noteq> replicate (length head) CHR ''/''
         then rstrip_slash head else head)"

section \<open>The GitHub client (\<^verbatim>\<open>api/github_client.py\<close>)\<close>

definition MODELS_ROOT :: string where
  "MODELS_ROOT = ''models''"

text \<open>
  An item of a Contents API listing, with the three keys the module reads: \<^verbatim>\<open>"name"\<close>,
  \<^verbatim>\<open>"type"\<close> and \<^verbatim>\<open>"download_url"\<close>. The body of a response is a JSON object (one
  item), a JSON array of items, or some other JSON value.
\<close>

record gh_item =
  item_name :: string
  item_type :: string
  item_download_url :: string

datatype api_json = JsonDict gh_item | JsonList "gh_item list" | JsonOther

text \<open>
  The remote side, at the configured repository and branch: \<^verbatim>\<open>contents\<close> answers
  \<^verbatim>\<open>GET /repos/<GITHUB_REPO>/contents/<path>?ref=<GITHUB_BRANCH>\<close> and \<^verbatim>\<open>raw\<close> answers a
  \<^verbatim>\<open>GET\<close> of a download URL. \<^verbatim>\<open>Inl\<close> is what \<^verbatim>\<open>raise_for_status\<close> raises.
\<close>

record github =
  contents :: "string \<Rightarrow> py_error + api_json"
  raw :: "string \<Rightarrow> py_error + string"

definition list_repo_root :: "github \<Rightarrow> py_error + api_json" where
  "list_repo_root gh = contents gh MODELS_ROOT"

definition github_api_get :: "github \<Rightarrow> string \<Rightarrow> py_error + api_json" where
  "github_api_get gh path = contents gh path"

text \<open>A registry descriptor is the dict of strings the module builds for a model.\<close>

type_synonym metadata = "(string \<times> string) list"

fun list_github_models_loop ::
  "gh_item list \<Rightarrow> (string \<times> metadata) list \<Rightarrow> (string \<times> metadata) list" where
  "list_github_models_loop [] models = models"
| "list_github_models_loop (item # items) models =
     (let name = item_name item in
      if item_type item = ''file'' then
        (let model_name = fst (splitext name) in
         list_github_models_loop items
           (dict_set model_name
              [(''source'', ''github''),
               (''model_name'', model_name),
               (''type'', item_type item),
               (''model_path'', MODELS_ROOT @ ''/'' @ name)] models))
      else if item_type item = ''dir'' then
        (let model_name = name in
         list_github_models_loop items
           (dict_set model_name
              [(''source'', ''github''),
               (''model_name'', model_name),
               (''type'', item_type item),
               (''model_path'', MODELS_ROOT @ ''/'' @ name)] models))
      else list_github_models_loop items models)"

text \<open>
  Iterating a response that is not an array does not give items: subscripting what the
  loop gets raises \<^verbatim>\<open>TypeError\<close>.
\<close>

definition list_github_models :: "github \<Rightarrow> py_error + (string \<times> metadata) list" where
  "list_github_models gh =
     (case list_repo_root gh of
        Inl e \<Rightarrow> Inl e
      | Inr (JsonList items) \<Rightarrow> Inr (list_github_models_loop items [])
      | Inr _ \<Rightarrow> Inl (Raised TypeError ''string indices must be integers''))"

subsection \<open>The local file system\<close>

text \<open>
  The file system maps a path to what is there: a regular file with its content, or a
  directory. A path is under a directory when it is the directory or continues it
  after a separator. The operations are those the module calls:
  \<^verbatim>\<open>os.path.exists\<close>, \<^verbatim>\<open>os.path.isdir\<close>, \<^verbatim>\<open>os.path.isfile\<close>, \<^verbatim>\<open>shutil.rmtree\<close>,
  \<^verbatim>\<open>os.makedirs(..., exist_ok=True)\<close> and writing a file opened with \<^verbatim>\<open>"wb"\<close>. Of
  \<^verbatim>\<open>os.makedirs\<close> only the entry of the directory itself is recorded, not those of its
  ancestors.
\<close>

datatype fsnode = RegFile string | Directory

type_synonym filesystem = "string \<Rightarrow> fsnode option"

definition os_path_exists :: "filesystem \<Rightarrow> string \<Rightarrow> bool" where
  "os_path_exists fs p = (fs p \<noteq> None)"

definition os_path_isdir :: "filesystem \<Rightarrow> string \<Rightarrow> bool" where
  "os_path_isdir fs p = (fs p = Some Directory)"

definition os_path_isfile :: "filesystem \<Rightarrow> string \<Rightarrow> bool" where
  "os_path_isfile fs p = (case fs p of Some (RegFile c) \<Rightarrow> True | _ \<Rightarrow> False)"

definition is_under :: "string \<Rightarrow> string \<Rightarrow> bool" where
  "is_under d p = (p = d \<or> prefix (path_join d []) p)"

definition shutil_rmtree :: "filesystem \<Rightarrow> string \<Rightarrow> py_error + filesystem" where
  "shutil_rmtree fs d =
     (case fs d of
        None \<Rightarrow> Inl (Raised FileNotFoundError d)
      | Some (RegFile c) \<Rightarrow> Inl (Raised NotADirectoryError d)
      | Some Directory \<Rightarrow> Inr (\<lambda>p. if is_under d p then None else fs p))"

definition os_makedirs :: "filesystem \<Rightarrow> string \<Rightarrow> py_error + filesystem" where
  "os_makedirs fs p =
     (if p = [] then Inl (Raised FileNotFoundError p)
      else case fs p of
             Some (RegFile c) \<Rightarrow> Inl (Raised FileExistsError p)
           | _ \<Rightarrow> Inr (fs(p \<mapsto> Directory)))"

definition write_file :: "filesystem \<Rightarrow> string \<Rightarrow> string \<Rightarrow> py_error + filesystem" where
  "write_file fs p content =
     (case fs p of
        Some Directory \<Rightarrow> Inl (Raised IsADirectoryError p)
      | _ \<Rightarrow> Inr (fs(p \<mapsto> RegFile content)))"

subsection \<open>Downloading\<close>

text \<open>
  A function that writes returns its result, or the exception it raised, together with
  the file system as it left it.
\<close>

definition download_file ::
  "github \<Rightarrow> string \<Rightarrow> string \<Rightarrow> filesystem \<Rightarrow> (py_error + unit) \<times> filesystem" where
  "download_file gh download_url local_path fs =
     (case raw gh download_url of
        Inl e \<Rightarrow> (Inl e, fs)
      | Inr content \<Rightarrow>
          (case os_makedirs fs (dirname local_path) of
             Inl e \<Rightarrow> (Inl e, fs)
           | Inr fs1 \<Rightarrow>
               (case write_file fs1 local_path content of
                  Inl e \<Rightarrow> (Inl e, fs1)
                | Inr fs2 \<Rightarrow> (Inr (), fs2))))"

text \<open>
  \<^verbatim>\<open>download_folder\<close> calls itself for every sub-directory the API lists. The first
  argument is the number of nested calls the interpreter still allows; Python raises
  \<^verbatim>\<open>RecursionError\<close> when none is left. \<^verbatim>\<open>download_items\<close> is the \<^verbatim>\<open>for\<close> loop of its body.
\<close>

fun download_folder ::
  "nat \<Rightarrow> github \<Rightarrow> string \<Rightarrow> string \<Rightarrow> filesystem \<Rightarrow> (py_error + unit) \<times> filesystem"
and download_items ::
  "nat \<Rightarrow> github \<Rightarrow> string \<Rightarrow> string \<Rightarrow> gh_item list \<Rightarrow> filesystem \<Rightarrow>
   (py_error + unit) \<times> filesystem" where
  "download_folder 0 gh repo_path local_path fs =
     (Inl (Raised RecursionError ''maximum recursion depth exceeded''), fs)"
| "download_folder (Suc depth) gh repo_path local_path fs =
     (case github_api_get gh repo_path of
        Inl e \<Rightarrow> (Inl e, fs)
      | Inr (JsonList items) \<Rightarrow>
          (case os_makedirs fs local_path of
             Inl e \<Rightarrow> (Inl e, fs)
           | Inr fs1 \<Rightarrow> download_items depth gh repo_path local_path items fs1)
      | Inr _ \<Rightarrow>
          (case os_makedirs fs local_path of
             Inl e \<Rightarrow> (Inl e, fs)
           | Inr fs1 \<Rightarrow> (Inl (Raised TypeError ''string indices must be integers''), fs1)))"
| "download_items depth gh repo_path local_path [] fs = (Inr (), fs)"
| "download_items depth gh repo_path local_path (item # items) fs =
     (if item_type item = ''file'' then
        (let file_path = path_join local_path (item_name item) in
         case download_file gh (item_download_url item) file_path fs of
           (Inl e, fs1) \<Rightarrow> (Inl e, fs1)
         | (Inr u, fs1) \<Rightarrow> download_items depth gh repo_path local_path items fs1)
      else if item_type item = ''dir'' then
        (let sub_repo_path = repo_path @ ''/'' @ item_name item;
             sub_local_path = path_join local_path (item_name item) in
         case download_folder depth gh sub_repo_path sub_local_path fs of
           (Inl e, fs1) \<Rightarrow> (Inl e, fs1)
         | (Inr u, fs1) \<Rightarrow> download_items depth gh repo_path local_path items fs1)
      else (Inl (Raised RuntimeError (''Unknown GitHub item type: '' @ item_type item)), fs))"

text \<open>
  The model entry is a descriptor as \<^verbatim>\<open>list_github_models\<close> builds it; \<^verbatim>\<open>entry[key]\<close>
  raises \<^verbatim>\<open>KeyError\<close> when the key is missing.
\<close>

definition py_index :: "metadata \<Rightarrow> string \<Rightarrow> py_error + string" where
  "py_index entry key =
     (case map_of entry key of None \<Rightarrow> Inl (Raised KeyError key) | Some v \<Rightarrow> Inr v)"

definition download_github_model ::
  "nat \<Rightarrow> github \<Rightarrow> metadata \<Rightarrow> filesystem \<Rightarrow> (py_error + string) \<times> filesystem" where
  "download_github_model depth gh model_entry fs =
     (case py_index model_entry ''model_path'' of
        Inl e \<Rightarrow> (Inl e, fs)
      | Inr repo_path \<Rightarrow>
     (case github_api_get gh repo_path of
        Inl e \<Rightarrow> (Inl e, fs)
      | Inr info \<Rightarrow>
          (case info of
             JsonDict item \<Rightarrow>
               (if item_type item = ''file'' then
                  (let dest_file = path_join ''/models'' (basename repo_path) in
                   case download_file gh (item_download_url item) dest_file fs of
                     (Inl e, fs1) \<Rightarrow> (Inl e, fs1)
                   | (Inr u, fs1) \<Rightarrow> (Inr dest_file, fs1))
                else (Inl (Raised RuntimeError
                        (''Unsupported GitHub model type for path: '' @ repo_path)), fs))
           | JsonList items \<Rightarrow>
               (case py_index model_entry ''model_name'' of
                  Inl e \<Rightarrow> (Inl e, fs)
                | Inr name \<Rightarrow>
                    (let dest_dir = path_join ''/models'' name in
                     case (if os_path_exists fs dest_dir then shutil_rmtree fs dest_dir
                           else Inr fs) of
                       Inl e \<Rightarrow> (Inl e, fs)
                     | Inr fs1 \<Rightarrow>
                         (case download_folder depth gh repo_path dest_dir fs1 of
                            (Inl e, fs2) \<Rightarrow> (Inl e, fs2)
                          | (Inr u, fs2) \<Rightarrow> (Inr dest_dir, fs2))))
           | JsonOther \<Rightarrow>
               (Inl (Raised RuntimeError
                  (''Unsupported GitHub model type for path: '' @ repo_path)), fs))))"

section \<open>The REST API (\<^verbatim>\<open>api/rest_api.py\<close>)\<close>

subsection \<open>The registry\<close>

text \<open>
  What the registry keeps for a model in service: the keys \<^verbatim>\<open>"model_path"\<close>, \<^verbatim>\<open>"model"\<close>
  and \<^verbatim>\<open>"model_info"\<close> that \<^verbatim>\<open>predict\<close> reads. The registry holds two dicts keyed by model
  name.
\<close>

record 'm active_model =
  active_model_path :: string
  active_model_handle :: 'm
  active_model_info :: pyval

record 'm registry =
  available :: "(string \<times> metadata) list"
  active :: "(string \<times> 'm active_model) list"

text \<open>
  Modelled from the spec: \<^verbatim>\<open>clear_all\<close> of the registry in \<^verbatim>\<open>api/model_registry.py\<close>,
  which is not among the sources. The spec (4.1): \<^verbatim>\<open>clearAll()\<close> empties both maps.
\<close>

definition clear_all :: "'m registry \<Rightarrow> 'm registry" where
  "clear_all reg = reg\<lparr>available := [], active := []\<rparr>"

text \<open>
  Modelled from the spec: \<^verbatim>\<open>register_model\<close> of the registry in
  \<^verbatim>\<open>api/model_registry.py\<close>, which is not among the sources. The spec (4.1):
  \<^verbatim>\<open>registerOrUpdate(descriptor)\<close> inserts or overwrites; no error condition.
\<close>

definition register_model :: "string \<Rightarrow> metadata \<Rightarrow> 'm registry \<Rightarrow> 'm registry" where
  "register_model name md reg = reg\<lparr>available := dict_set name md (available reg)\<rparr>"

text \<open>
  Modelled from the spec: \<^verbatim>\<open>get_active_model\<close> of the registry in
  \<^verbatim>\<open>api/model_registry.py\<close>, which is not among the sources. The spec (4.1):
  \<^verbatim>\<open>getActive(name)\<close> is a point lookup; absence is a normal outcome.
\<close>

definition get_active_model :: "'m registry \<Rightarrow> string \<Rightarrow> 'm active_model option" where
  "get_active_model reg name = map_of (active reg) name"

subsection \<open>Initialization\<close>

text \<open>
  \<^verbatim>\<open>_initialize_from_github\<close>: the loop over \<^verbatim>\<open>github_entries.items()\<close>, inside a
  \<^verbatim>\<open>try\<close> whose \<^verbatim>\<open>except Exception\<close> only logs. The log lines of the initialization are
  left out.
\<close>

fun initialize_from_github_loop ::
  "(string \<times> metadata) list \<Rightarrow> 'm registry \<Rightarrow> 'm registry" where
  "initialize_from_github_loop [] reg = reg"
| "initialize_from_github_loop ((name, entry) # rest) reg =
     initialize_from_github_loop rest (register_model name entry reg)"

definition initialize_from_github :: "github \<Rightarrow> 'm registry \<Rightarrow> 'm registry" where
  "initialize_from_github gh reg =
     (case list_github_models gh of
        Inl e \<Rightarrow> reg
      | Inr github_entries \<Rightarrow> initialize_from_github_loop github_entries reg)"

text \<open>
  \<^verbatim>\<open>os.listdir\<close>: the names in a directory, in the order the system gives them (the
  second argument); it raises when the path is not a directory.
\<close>

definition os_listdir ::
  "filesystem \<Rightarrow> (string \<Rightarrow> string list) \<Rightarrow> string \<Rightarrow> py_error + string list" where
  "os_listdir fs listing p =
     (case fs p of
        None \<Rightarrow> Inl (Raised FileNotFoundError p)
      | Some (RegFile c) \<Rightarrow> Inl (Raised NotADirectoryError p)
      | Some Directory \<Rightarrow> Inr (listing p))"

fun initialize_from_filesystem_loop ::
  "string \<Rightarrow> filesystem \<Rightarrow> string list \<Rightarrow> 'm registry \<Rightarrow> 'm registry" where
  "initialize_from_filesystem_loop MODELS_PATH fs [] reg = reg"
| "initialize_from_filesystem_loop MODELS_PATH fs (filename # rest) reg =
     (let file_path = path_join MODELS_PATH filename in
      if os_path_isdir fs file_path \<or> os_path_isfile fs file_path then
        (let name = fst (splitext filename);
             md = [(''source'', ''local_filesystem''),
                   (''model_name'', name),
                   (''model_path'', file_path)]
         in initialize_from_filesystem_loop MODELS_PATH fs rest (register_model name md reg))
      else initialize_from_filesystem_loop MODELS_PATH fs rest reg)"

definition initialize_from_filesystem ::
  "string \<Rightarrow> filesystem \<Rightarrow> (string \<Rightarrow> string list) \<Rightarrow> 'm registry \<Rightarrow>
   (py_error + unit) \<times> 'm registry" where
  "initialize_from_filesystem MODELS_PATH fs listing reg =
     (if \<not> os_path_exists fs MODELS_PATH then (Inr (), reg)
      else case os_listdir fs listing MODELS_PATH of
             Inl e \<Rightarrow> (Inl e, reg)
           | Inr filenames \<Rightarrow>
               (Inr (), initialize_from_filesystem_loop MODELS_PATH fs filenames reg))"

definition initialize_models ::
  "string \<Rightarrow> github \<Rightarrow> string \<Rightarrow> filesystem \<Rightarrow> (string \<Rightarrow> string list) \<Rightarrow> 'm registry \<Rightarrow>
   (py_error + unit) \<times> 'm registry" where
  "initialize_models MODEL_SOURCE gh MODELS_PATH fs listing reg =
     (let reg0 = clear_all reg in
      if MODEL_SOURCE = ''github'' then (Inr (), initialize_from_github gh reg0)
      else initialize_from_filesystem MODELS_PATH fs listing reg0)"

subsection \<open>Endpoints\<close>

text \<open>
  A handler returns the HTTP status and the JSON body that \<^verbatim>\<open>jsonify\<close> is given (status
  200 when the handler names none), or the exception that leaves it.

  \<^verbatim>\<open>deactivate_model\<close>: the lifecycle manager (\<^verbatim>\<open>api/model_lifecycle.py\<close>, not among the
  sources) is a parameter: a function on its own state that returns the pair
  \<^verbatim>\<open>(success, message)\<close> the handler unpacks.
\<close>

type_synonym response = "nat \<times> pyval"

definition deactivate_model ::
  "('s \<Rightarrow> string \<Rightarrow> (bool \<times> string) \<times> 's) \<Rightarrow> string \<Rightarrow> 's \<Rightarrow> response \<times> 's" where
  "deactivate_model lifecycle_deactivate_model name st =
     (case lifecycle_deactivate_model st name of
        ((success, message), st') \<Rightarrow> ((200, PDict [(''message'', PStr message)]), st'))"

text \<open>
  The body of a request as \<^verbatim>\<open>request.get_json\<close> finds it: none, bytes that are not JSON,
  or a JSON value. With \<^verbatim>\<open>silent=True\<close> the first two give \<^verbatim>\<open>None\<close>.
\<close>

datatype request_body = Absent | Unparseable string | Parsed pyval

fun get_json_silent :: "request_body \<Rightarrow> pyval" where
  "get_json_silent Absent = PNone"
| "get_json_silent (Unparseable s) = PNone"
| "get_json_silent (Parsed v) = v"

text \<open>
  \<^verbatim>\<open>predict\<close> calls two collaborators that are not among the sources and are parameters
  here: \<^verbatim>\<open>model_detector.predict\<close> and \<^verbatim>\<open>send_message_to_prediction_destination\<close>, each
  returning its value or raising. The calls made are recorded in order.
\<close>

datatype 'm call = Infer string 'm pyval | Publish pyval string

text \<open>\<^verbatim>\<open>result["predictions"]\<close> when the result is a dict with that key.\<close>

fun unwrap_predictions :: "pyval \<Rightarrow> pyval" where
  "unwrap_predictions (PDict kvs) =
     (case map_of kvs ''predictions'' of None \<Rightarrow> PDict kvs | Some v \<Rightarrow> v)"
| "unwrap_predictions v = v"

text \<open>The \<^verbatim>\<open>except Exception as e\<close> branch of \<^verbatim>\<open>predict\<close>.\<close>

definition predict_except ::
  "(pyval \<Rightarrow> string \<Rightarrow> py_error + bool) \<Rightarrow> string \<Rightarrow> 'm active_model \<Rightarrow> py_error \<Rightarrow>
   'm call list \<Rightarrow> 'm call list \<times> (py_error + response)" where
  "predict_except send_message name am e calls =
     (let error_message =
            PDict [(''model'', PStr name),
                   (''status'', PStr ''error''),
                   (''error'', PStr (str_of e)),
                   (''expected_input'', active_model_info am)]
      in case send_message error_message name of
           Inl e' \<Rightarrow> (calls @ [Publish error_message name], Inl e')
         | Inr sent \<Rightarrow> (calls @ [Publish error_message name], Inr (400, error_message)))"

definition predict ::
  "'m registry \<Rightarrow> (string \<Rightarrow> 'm \<Rightarrow> pyval \<Rightarrow> py_error + pyval) \<Rightarrow>
   (pyval \<Rightarrow> string \<Rightarrow> py_error + bool) \<Rightarrow> string \<Rightarrow> string \<Rightarrow> request_body \<Rightarrow>
   'm call list \<times> (py_error + response)" where
  "predict reg model_detector_predict send_message PREDICTION_DESTINATION name body =
     (case get_active_model reg name of
        None \<Rightarrow>
          ([], Inr (404, PDict [(''error'',
                  PStr (''Model '' @ [CHR 0x27] @ name @ [CHR 0x27] @ '' not active''))]))
      | Some am \<Rightarrow>
          (let payload = py_or (get_json_silent body) (PDict []) in
           case py_get payload ''input'' of
             Inl e \<Rightarrow> ([], Inl e)
           | Inr features \<Rightarrow>
               (let calls = [Infer (active_model_path am) (active_model_handle am) features] in
                case model_detector_predict (active_model_path am) (active_model_handle am)
                       features of
                  Inl e \<Rightarrow> predict_except send_message name am e calls
                | Inr result0 \<Rightarrow>
                    (let result = unwrap_predictions result0;
                         response_payload =
                           PDict [(''model'', PStr name),
                                  (''status'', PStr ''success''),
                                  (''prediction'', result)];
                         calls' = calls @ [Publish response_payload name]
                     in case send_message response_payload name of
                          Inl e \<Rightarrow> predict_except send_message name am e calls'
                        | Inr sent \<Rightarrow>
                            if \<not> sent then
                              (calls', Inr (500, PDict [(''error'',
                                         PStr ''Failed to forward prediction'')]))
                            else
                              (calls', Inr (200, PDict [(''status'', PStr ''sent''),
                                         (''destination'', PStr PREDICTION_DESTINATION),
                                         (''prediction'', result)]))))))"

subsection \<open>The webhook\<close>

text \<open>
  A push notification: the ref that was pushed to and the changed file paths, each with
  the kind of change.
\<close>

datatype change_type = Added | Modified | Removed

type_synonym sync_event = "change_type \<times> string"

record push_payload =
  push_ref :: string
  push_changes :: "(change_type \<times> string) list"

text \<open>
  Modelled from the spec: \<^verbatim>\<open>handle_push_event\<close> of the webhook handler in
  \<^verbatim>\<open>api/webhook_handler.py\<close>, which is not among the sources. The spec (4.4): given a
  list of changed file paths from a push notification (restricted to a configured
  branch), it computes, for each changed path that falls under the models root, a
  SyncEvent. The result is the list of sync events applied to the registry.
\<close>

definition handle_push_event :: "push_payload \<Rightarrow> string \<Rightarrow> sync_event list" where
  "handle_push_event payload branch_filter =
     (if push_ref payload \<noteq> branch_filter then []
      else filter (\<lambda>(change, path). prefix (MODELS_ROOT @ ''/'') path) (push_changes payload))"

text \<open>
  \<^verbatim>\<open>github_webhook\<close>: the \<^verbatim>\<open>X-GitHub-Event\<close> header may be missing; \<^verbatim>\<open>request.get_json()\<close>
  raises when the body is not JSON (no payload).
\<close>

definition github_webhook ::
  "string option \<Rightarrow> push_payload option \<Rightarrow> (py_error + response) \<times> sync_event list" where
  "github_webhook event body =
     (if event = Some ''ping'' then (Inr (200, PDict [(''status'', PStr ''pong'')]), [])
      else if event \<noteq> Some ''push'' then
        (Inr (200, PDict [(''status'',
            PStr (''received '' @ (case event of None \<Rightarrow> ''None'' | Some ev \<Rightarrow> ev)))]), [])
      else case body of
             None \<Rightarrow> (Inl (Raised BadRequest ''Failed to decode JSON object''), [])
           | Some payload \<Rightarrow>
               (Inr (200, PDict [(''status'', PStr ''processed'')]),
                handle_push_event payload ''refs/heads/main''))"

text \<open>
  The ref of the configured branch: \<^verbatim>\<open>GITHUB_BRANCH\<close> of the client names the branch that
  listing and download read.
\<close>

definition branch_ref :: "string \<Rightarrow> string" where
  "branch_ref GITHUB_BRANCH = ''refs/heads/'' @ GITHUB_BRANCH"

subsection \<open>Shutdown\<close>

text \<open>
  The state \<^verbatim>\<open>cleanup\<close> works on: the log, and the serving containers that exist, by
  name. The operations \<^verbatim>\<open>cleanup\<close> calls (\<^verbatim>\<open>stop_kafka_consumer\<close>, \<^verbatim>\<open>stop_mqtt_consumer\<close>,
  \<^verbatim>\<open>tf_serving_manager.list_managed_containers\<close>, \<^verbatim>\<open>container.remove\<close>) are not among the
  sources; each is given by its outcome: it returns, or it raises an exception. A
  container whose removal returns is gone. The handler ends by leaving the process
  (\<^verbatim>\<open>sys.exit(0)\<close>) or by an exception that no \<^verbatim>\<open>try\<close> of its own catches.
\<close>

datatype log_level = INFO | WARNING | ERROR

record proc_state =
  logged :: "(log_level \<times> string) list"
  managed :: "string list"

definition logger :: "log_level \<Rightarrow> string \<Rightarrow> proc_state \<Rightarrow> proc_state" where
  "logger level msg st = st\<lparr>logged := logged st @ [(level, msg)]\<rparr>"

datatype handler_end = ProcessExit int | Propagated py_error

fun cleanup_containers ::
  "(string \<Rightarrow> py_error + unit) \<Rightarrow> string list \<Rightarrow> proc_state \<Rightarrow> proc_state" where
  "cleanup_containers container_remove [] st = st"
| "cleanup_containers container_remove (container # rest) st =
     (case container_remove container of
        Inr u \<Rightarrow>
          cleanup_containers container_remove rest
            (logger INFO (''[SHUTDOWN] Stopped '' @ container)
               (st\<lparr>managed := removeAll container (managed st)\<rparr>))
      | Inl e \<Rightarrow>
          cleanup_containers container_remove rest
            (logger ERROR (''[SHUTDOWN] Failed to stop '' @ container @ '': '' @ str_of e) st))"

definition cleanup_consumers ::
  "string \<Rightarrow> (py_error + unit) \<Rightarrow> (py_error + unit) \<Rightarrow> proc_state \<Rightarrow> proc_state" where
  "cleanup_consumers INPUT_DATA_SOURCE stop_kafka_consumer stop_mqtt_consumer st =
     (if INPUT_DATA_SOURCE = ''kafka'' then
        (case stop_kafka_consumer of
           Inr u \<Rightarrow> logger INFO ''[SHUTDOWN] Kafka consumer stopped'' st
         | Inl e \<Rightarrow>
             logger ERROR (''[SHUTDOWN] Failed to stop Kafka consumer: '' @ str_of e) st)
      else if INPUT_DATA_SOURCE = ''mqtt'' then
        (case stop_mqtt_consumer of
           Inr u \<Rightarrow> logger INFO ''[SHUTDOWN] MQTT consumer stopped'' st
         | Inl e \<Rightarrow>
             logger ERROR (''[SHUTDOWN] Failed to stop MQTT consumer: '' @ str_of e) st)
      else st)"

text \<open>
  The stops of the consumers and each removal sit in a \<^verbatim>\<open>try\<close> with
  \<^verbatim>\<open>except Exception\<close>; the call of \<^verbatim>\<open>list_managed_containers()\<close> that the \<^verbatim>\<open>for\<close> loop
  iterates over sits in none.
\<close>

definition cleanup ::
  "string \<Rightarrow> (py_error + unit) \<Rightarrow> (py_error + unit) \<Rightarrow> (py_error + string list) \<Rightarrow>
   (string \<Rightarrow> py_error + unit) \<Rightarrow> proc_state \<Rightarrow> handler_end \<times> proc_state" where
  "cleanup INPUT_DATA_SOURCE stop_kafka_consumer stop_mqtt_consumer list_managed_containers
     container_remove st =
     (let st1 = logger INFO ''[SHUTDOWN] Starting cleanup...'' st;
          st2 = cleanup_consumers INPUT_DATA_SOURCE stop_kafka_consumer stop_mqtt_consumer st1;
          st3 = logger INFO ''[SHUTDOWN] Stopping TF Serving containers...'' st2
      in case list_managed_containers of
           Inl e \<Rightarrow> (Propagated e, st3)
         | Inr containers \<Rightarrow>
             (let st4 = cleanup_containers container_remove containers st3;
                  st5 = logger INFO ''[SHUTDOWN] Cleanup complete'' st4
              in (ProcessExit 0, st5)))"

subsection \<open>A predicate on file systems\<close>

text \<open>
  Used to state what a download leaves behind: every regular file at or under the
  directory \<^verbatim>\<open>d\<close> holds bytes that some download URL of the remote side serves.
\<close>

definition only_fetched :: "github \<Rightarrow> string \<Rightarrow> filesystem \<Rightarrow> bool" where
  "only_fetched gh d fs =
     (\<forall>p c. is_under d p \<and> fs p = Some (RegFile c) \<longrightarrow> (\<exists>url. raw gh url = Inr c))"

subsection \<open>Example inputs\<close>

text \<open>Concrete inputs on which the theorems below are instantiated.\<close>

definition example_registry :: "nat registry" where
  "example_registry =
     \<lparr>available = [(''m'', [(''source'', ''local_filesystem''), (''model_name'', ''m''),
                              (''model_path'', ''/models/m.pkl'')])],
      active = [(''m'', \<lparr>active_model_path = ''/models/m.pkl'', active_model_handle = 7,
                          active_model_info = PDict [(''n_features'', PInt 2)]\<rparr>)]\<rparr>"

definition example_infer :: "string \<Rightarrow> nat \<Rightarrow> pyval \<Rightarrow> py_error + pyval" where
  "example_infer path handle features =
     (if features = PNone then Inl (Raised TypeError ''features is None'')
      else Inr (PDict [(''predictions'', PList [PInt 1])]))"

definition example_send :: "bool \<Rightarrow> pyval \<Rightarrow> string \<Rightarrow> py_error + bool" where
  "example_send ok payload name = Inr ok"

definition example_remove :: "string \<Rightarrow> py_error + unit" where
  "example_remove container =
     (if container = ''tf_a'' then Inl (Raised OtherException ''conflict'') else Inr ())"

definition example_github :: "gh_item list \<Rightarrow> github" where
  "example_github items =
     \<lparr>contents = (\<lambda>path. if path = ''models'' then Inr (JsonList items)
                           else Inl (Raised HTTPError ''404 Not Found'')),
      raw = (\<lambda>url. Inl (Raised HTTPError ''404 Not Found''))\<rparr>"

definition example_models_dir :: filesystem where
  "example_models_dir =
     (\<lambda>p. None)(''/models'' \<mapsto> Directory,
                ''/models/x.pkl'' \<mapsto> RegFile ''pickle'',
                ''/models/x'' \<mapsto> Directory,
                ''/models/fire_pytorch.v2'' \<mapsto> Directory)"

definition empty_registry :: "nat registry" where
  "empty_registry = \<lparr>available = [], active = []\<rparr>"

definition example_repo :: github where
  "example_repo =
     \<lparr>contents = (\<lambda>path. if path = ''models/fire''
                           then Inr (JsonList [\<lparr>item_name = ''weights.bin'', item_type = ''file'',
                                                 item_download_url = ''https://raw/weights''\<rparr>])
                           else Inl (Raised HTTPError ''404 Not Found'')),
      raw = (\<lambda>url. if url = ''https://raw/weights'' then Inr ''W''
                     else Inl (Raised HTTPError ''404 Not Found''))\<rparr>"

definition example_disk :: filesystem where
  "example_disk =
     (\<lambda>p. None)(''/models'' \<mapsto> Directory,
                ''/models/fire'' \<mapsto> Directory,
                ''/models/fire/old.bin'' \<mapsto> RegFile ''stale'')"

definition example_entry :: metadata where
  "example_entry =
     [(''source'', ''github''), (''model_name'', ''fire''), (''type'', ''dir''),
      (''model_path'', ''models/fire'')]"

section \<open>Properties\<close>

subsection \<open>Dicts and the registration loops\<close>

lemma dict_set_keys: "fst ` set (dict_set k v d) = insert k (fst ` set d)"
proof (induction d)
  case Nil
  then show ?case by simp
next
  case (Cons p d)
  obtain k' v' where p: "p = (k', v')" by (cases p)
  show ?case
  proof (cases "k' = k")
    case True
    with p show ?thesis by simp
  next
    case False
    with p Cons.IH show ?thesis by (simp add: insert_commute)
  qed
qed

lemma distinct_dict_set: "distinct (map fst d) \<Longrightarrow> distinct (map fst (dict_set k v d))"
proof (induction d)
  case Nil
  then show ?case by simp
next
  case (Cons p d)
  obtain k' v' where p: "p = (k', v')" by (cases p)
  have "k' \<noteq> k \<Longrightarrow> k' \<notin> fst ` set (dict_set k v d)"
    using Cons.prems p by (simp add: dict_set_keys)
  with Cons p show ?case by auto
qed

lemma map_of_dict_set: "map_of (dict_set k v d) = (map_of d)(k \<mapsto> v)"
  by (induction d) (auto simp: fun_eq_iff)

lemma dict_set_present: "k \<in> fst ` set d \<Longrightarrow> map fst (dict_set k v d) = map fst d"
proof (induction d)
  case Nil
  then show ?case by simp
next
  case (Cons p d)
  obtain k' v' where p: "p = (k', v')" by (cases p)
  show ?case
  proof (cases "k' = k")
    case True
    with p show ?thesis by simp
  next
    case False
    with p Cons.prems have "k \<in> fst ` set d" by auto
    with Cons.IH p False show ?thesis by simp
  qed
qed

lemma dict_set_absent: "k \<notin> fst ` set d \<Longrightarrow> dict_set k v d = d @ [(k, v)]"
  by (induction d) auto

lemma distinct_list_github_models_loop:
  "distinct (map fst models) \<Longrightarrow> distinct (map fst (list_github_models_loop items models))"
  by (induction items arbitrary: models) (simp_all add: Let_def distinct_dict_set)

lemma list_github_models_loop_append:
  "list_github_models_loop (items @ items') models =
   list_github_models_loop items' (list_github_models_loop items models)"
  by (induction items arbitrary: models) (simp_all add: Let_def)

lemma available_register_model [simp]:
  "available (register_model name md reg) = dict_set name md (available reg)"
  by (simp add: register_model_def)

lemma active_register_model [simp]:
  "active (register_model name md reg) = active reg"
  by (simp add: register_model_def)

lemma distinct_initialize_from_github_loop:
  "distinct (map fst (available reg)) \<Longrightarrow>
   distinct (map fst (available (initialize_from_github_loop entries reg)))"
  by (induction entries arbitrary: reg) (auto simp: distinct_dict_set)

lemma distinct_initialize_from_filesystem_loop:
  "distinct (map fst (available reg)) \<Longrightarrow>
   distinct (map fst (available (initialize_from_filesystem_loop mp fs filenames reg)))"
  by (induction filenames arbitrary: reg) (simp_all add: Let_def distinct_dict_set)

lemma active_initialize_from_github_loop [simp]:
  "active (initialize_from_github_loop entries reg) = active reg"
  by (induction entries arbitrary: reg) auto

lemma active_initialize_from_filesystem_loop [simp]:
  "active (initialize_from_filesystem_loop mp fs filenames reg) = active reg"
  by (induction filenames arbitrary: reg) (simp_all add: Let_def)

lemma initialize_from_github_loop_fresh:
  "distinct (map fst entries) \<Longrightarrow> fst ` set entries \<inter> fst ` set (available reg) = {} \<Longrightarrow>
   available (initialize_from_github_loop entries reg) = available reg @ entries"
proof (induction entries arbitrary: reg)
  case Nil
  then show ?case by simp
next
  case (Cons p entries)
  obtain k v where p: "p = (k, v)" by (cases p)
  have absent: "k \<notin> fst ` set (available reg)"
    using Cons.prems(2) p by auto
  have "fst ` set entries \<inter> fst ` set (available (register_model k v reg)) = {}"
    using Cons.prems p by (auto simp: dict_set_keys)
  with Cons.IH [of "register_model k v reg"] Cons.prems(1) p
  have "available (initialize_from_github_loop entries (register_model k v reg)) =
        available (register_model k v reg) @ entries"
    by simp
  with absent p show ?case by (simp add: dict_set_absent)
qed

lemma keys_initialize_from_filesystem_loop:
  "fst ` set (available (initialize_from_filesystem_loop mp fs filenames reg)) =
   fst ` set (available reg) \<union>
   {fst (splitext f) | f. f \<in> set filenames \<and>
      (os_path_isdir fs (path_join mp f) \<or> os_path_isfile fs (path_join mp f))}"
  by (induction filenames arbitrary: reg) (auto simp: Let_def dict_set_keys)


subsection \<open>The deactivate endpoint\<close>

text \<open>
  Claim C8. For every call to the deactivate endpoint, whatever the lifecycle manager
  is and returns, the response has status 200 and its body holds only the manager's
  message; the success flag is dropped, so a manager reporting failure and one
  reporting success with the same message and the same state give the same response.
\<close>

theorem deactivate_model_always_200_message_only:
  "fst (deactivate_model lifecycle name0 st) =
     (200, PDict [(''message'', PStr (snd (fst (lifecycle st name0))))])
   \<and> snd (deactivate_model lifecycle name0 st) = snd (lifecycle st name0)
   \<and> deactivate_model (\<lambda>s n. ((False, msg), s')) name0 st =
     deactivate_model (\<lambda>s n. ((True, msg), s')) name0 st"
  by (simp add: deactivate_model_def split: prod.splits)

subsection \<open>Shutdown\<close>

lemma logged_logger [simp]: "logged (logger level msg st) = logged st @ [(level, msg)]"
  by (simp add: logger_def)

lemma managed_logger [simp]: "managed (logger level msg st) = managed st"
  by (simp add: logger_def)

lemma managed_cleanup_consumers [simp]:
  "managed (cleanup_consumers src kafka mqtt st) = managed st"
  by (simp add: cleanup_consumers_def split: sum.splits)

lemma managed_cleanup_containers:
  "managed (cleanup_containers rm cs st) =
   filter (\<lambda>c. \<not> (c \<in> set cs \<and> rm c = Inr ())) (managed st)"
proof (induction cs arbitrary: st)
  case Nil
  then show ?case by simp
next
  case (Cons c cs)
  show ?case
  proof (cases "rm c")
    case (Inl e)
    with Cons.IH [of "logger ERROR (''[SHUTDOWN] Failed to stop '' @ c @ '': '' @ str_of e) st"]
    show ?thesis by (auto intro: filter_cong)
  next
    case (Inr u)
    with Cons.IH [of "logger INFO (''[SHUTDOWN] Stopped '' @ c)
        (st\<lparr>managed := removeAll c (managed st)\<rparr>)"]
    show ?thesis by (auto simp: removeAll_filter_not_eq intro: filter_cong)
  qed
qed

lemma logged_cleanup_containers:
  "logged (cleanup_containers rm cs st) =
   logged st @
   map (\<lambda>c. case rm c of
               Inr u \<Rightarrow> (INFO, ''[SHUTDOWN] Stopped '' @ c)
             | Inl e \<Rightarrow> (ERROR, ''[SHUTDOWN] Failed to stop '' @ c @ '': '' @ str_of e)) cs"
  by (induction cs arbitrary: st) (auto split: sum.splits)

text \<open>
  The release paths. When the listing of the managed containers returns, the handler
  ends by exiting the process with status 0 whatever the release operations do: an
  exception raised by stopping the Kafka or MQTT consumer or by removing a container
  is logged as an error, every listed container is still attempted in turn (those
  whose removal returned are gone, the log has one line per container), and the
  handler reaches its last log line and \<^verbatim>\<open>sys.exit(0)\<close>.
\<close>

lemma cleanup_catches_release_failures_and_exits:
  assumes "listing = Inr cs"
  shows "fst (cleanup src kafka mqtt listing rm st) = ProcessExit 0
   \<and> managed (snd (cleanup src kafka mqtt listing rm st)) =
       filter (\<lambda>c. \<not> (c \<in> set cs \<and> rm c = Inr ())) (managed st)
   \<and> logged (snd (cleanup src kafka mqtt listing rm st)) =
       logged (cleanup_consumers src kafka mqtt
                 (logger INFO ''[SHUTDOWN] Starting cleanup...'' st))
       @ [(INFO, ''[SHUTDOWN] Stopping TF Serving containers...'')]
       @ map (\<lambda>c. case rm c of
                    Inr u \<Rightarrow> (INFO, ''[SHUTDOWN] Stopped '' @ c)
                  | Inl e \<Rightarrow> (ERROR, ''[SHUTDOWN] Failed to stop '' @ c @ '': '' @ str_of e))
             cs
       @ [(INFO, ''[SHUTDOWN] Cleanup complete'')]
   \<and> (src = ''kafka'' \<and> kafka = Inl e \<longrightarrow>
        (ERROR, ''[SHUTDOWN] Failed to stop Kafka consumer: '' @ str_of e)
          \<in> set (logged (snd (cleanup src kafka mqtt listing rm st))))
   \<and> (src = ''mqtt'' \<and> mqtt = Inl e \<longrightarrow>
        (ERROR, ''[SHUTDOWN] Failed to stop MQTT consumer: '' @ str_of e)
          \<in> set (logged (snd (cleanup src kafka mqtt listing rm st))))
   \<and> (c \<in> set cs \<and> rm c = Inl e \<longrightarrow>
        (ERROR, ''[SHUTDOWN] Failed to stop '' @ c @ '': '' @ str_of e)
          \<in> set (logged (snd (cleanup src kafka mqtt listing rm st))))"
proof -
  let ?st1 = "logger INFO ''[SHUTDOWN] Starting cleanup...'' st"
  let ?st2 = "cleanup_consumers src kafka mqtt ?st1"
  let ?line = "\<lambda>c. case rm c of
                    Inr u \<Rightarrow> (INFO, ''[SHUTDOWN] Stopped '' @ c)
                  | Inl e \<Rightarrow> (ERROR, ''[SHUTDOWN] Failed to stop '' @ c @ '': '' @ str_of e)"
  have ex: "fst (cleanup src kafka mqtt listing rm st) = ProcessExit 0"
    using assms by (simp add: cleanup_def Let_def)
  have man: "managed (snd (cleanup src kafka mqtt listing rm st)) =
        filter (\<lambda>c. \<not> (c \<in> set cs \<and> rm c = Inr ())) (managed st)"
    using assms by (simp add: cleanup_def Let_def managed_cleanup_containers)
  have lg: "logged (snd (cleanup src kafka mqtt listing rm st)) =
      logged ?st2 @ [(INFO, ''[SHUTDOWN] Stopping TF Serving containers...'')]
       @ map ?line cs @ [(INFO, ''[SHUTDOWN] Cleanup complete'')]"
    using assms by (simp add: cleanup_def Let_def logged_cleanup_containers)
  have k: "src = ''kafka'' \<and> kafka = Inl e \<longrightarrow>
        (ERROR, ''[SHUTDOWN] Failed to stop Kafka consumer: '' @ str_of e) \<in> set (logged ?st2)"
    by (simp add: cleanup_consumers_def)
  have m: "src = ''mqtt'' \<and> mqtt = Inl e \<longrightarrow>
        (ERROR, ''[SHUTDOWN] Failed to stop MQTT consumer: '' @ str_of e) \<in> set (logged ?st2)"
    by (simp add: cleanup_consumers_def)
  have c: "c \<in> set cs \<and> rm c = Inl e \<longrightarrow>
        (ERROR, ''[SHUTDOWN] Failed to stop '' @ c @ '': '' @ str_of e) \<in> set (map ?line cs)"
    by force
  from ex man lg k m c show ?thesis
    by (simp only: set_append) blast
qed

lemma cleanup_catches_release_failures_and_exits_example:
  "fst (cleanup ''kafka'' (Inl (Raised OtherException ''broker down'')) (Inr ())
          (Inr [''tf_a'', ''tf_b'']) example_remove
          \<lparr>logged = [], managed = [''tf_a'', ''tf_b'']\<rparr>) = ProcessExit 0
   \<and> managed (snd (cleanup ''kafka'' (Inl (Raised OtherException ''broker down'')) (Inr ())
          (Inr [''tf_a'', ''tf_b'']) example_remove
          \<lparr>logged = [], managed = [''tf_a'', ''tf_b'']\<rparr>)) = [''tf_a'']
   \<and> (ERROR, ''[SHUTDOWN] Failed to stop Kafka consumer: broker down'')
        \<in> set (logged (snd (cleanup ''kafka'' (Inl (Raised OtherException ''broker down''))
             (Inr ()) (Inr [''tf_a'', ''tf_b'']) example_remove
             \<lparr>logged = [], managed = [''tf_a'', ''tf_b'']\<rparr>)))
   \<and> (ERROR, ''[SHUTDOWN] Failed to stop tf_a: conflict'')
        \<in> set (logged (snd (cleanup ''kafka'' (Inl (Raised OtherException ''broker down''))
             (Inr ()) (Inr [''tf_a'', ''tf_b'']) example_remove
             \<lparr>logged = [], managed = [''tf_a'', ''tf_b'']\<rparr>)))"
  using cleanup_catches_release_failures_and_exits
    [where src = "''kafka''" and kafka = "Inl (Raised OtherException ''broker down'')"
       and mqtt = "Inr ()" and listing = "Inr [''tf_a'', ''tf_b'']"
       and cs = "[''tf_a'', ''tf_b'']" and rm = example_remove
       and st = "\<lparr>logged = [], managed = [''tf_a'', ''tf_b'']\<rparr>"
       and c = "''tf_a''" and e = "Raised OtherException ''conflict''"]
  by (simp add: example_remove_def cleanup_consumers_def)

text \<open>
  Claim C4, where the code departs from it. The claim: the shutdown handler never
  raises past itself and the process then exits. The call of
  \<^verbatim>\<open>list_managed_containers()\<close> is in no \<^verbatim>\<open>try\<close>: whenever it raises, the exception
  leaves the handler, whatever the consumers did; no container is removed, the log
  ends at the line that announces the container stops, and \<^verbatim>\<open>sys.exit(0)\<close> is not
  reached. The last conjunct is the handler run with the Kafka consumer stopping
  cleanly, one managed container and a listing that fails.
\<close>

theorem cleanup_listing_failure_propagates:
  "fst (cleanup src kafka mqtt (Inl e) rm st) = Propagated e
   \<and> managed (snd (cleanup src kafka mqtt (Inl e) rm st)) = managed st
   \<and> logged (snd (cleanup src kafka mqtt (Inl e) rm st)) =
       logged (cleanup_consumers src kafka mqtt
                 (logger INFO ''[SHUTDOWN] Starting cleanup...'' st))
       @ [(INFO, ''[SHUTDOWN] Stopping TF Serving containers...'')]
   \<and> cleanup ''kafka'' (Inr ()) (Inr ())
        (Inl (Raised OtherException ''Error while fetching server API version''))
        example_remove \<lparr>logged = [], managed = [''tf_b'']\<rparr> =
       (Propagated (Raised OtherException ''Error while fetching server API version''),
        \<lparr>logged = [(INFO, ''[SHUTDOWN] Starting cleanup...''),
                   (INFO, ''[SHUTDOWN] Kafka consumer stopped''),
                   (INFO, ''[SHUTDOWN] Stopping TF Serving containers...'')],
         managed = [''tf_b'']\<rparr>)"
proof -
  have general: "fst (cleanup src kafka mqtt (Inl e) rm st) = Propagated e
   \<and> managed (snd (cleanup src kafka mqtt (Inl e) rm st)) = managed st
   \<and> logged (snd (cleanup src kafka mqtt (Inl e) rm st)) =
       logged (cleanup_consumers src kafka mqtt
                 (logger INFO ''[SHUTDOWN] Starting cleanup...'' st))
       @ [(INFO, ''[SHUTDOWN] Stopping TF Serving containers...'')]"
    by (simp add: cleanup_def Let_def)
  have run: "cleanup ''kafka'' (Inr ()) (Inr ())
        (Inl (Raised OtherException ''Error while fetching server API version''))
        example_remove \<lparr>logged = [], managed = [''tf_b'']\<rparr> =
       (Propagated (Raised OtherException ''Error while fetching server API version''),
        \<lparr>logged = [(INFO, ''[SHUTDOWN] Starting cleanup...''),
                   (INFO, ''[SHUTDOWN] Kafka consumer stopped''),
                   (INFO, ''[SHUTDOWN] Stopping TF Serving containers...'')],
         managed = [''tf_b'']\<rparr>)"
    by (simp add: cleanup_def Let_def cleanup_consumers_def logger_def)
  from general run show ?thesis by (intro conjI) simp_all
qed

subsection \<open>The predict endpoint\<close>

text \<open>
  Claim C9. For an active model, a predict request whose body is absent, is not valid
  JSON, or is a JSON object without the key \<^verbatim>\<open>"input"\<close> is not rejected: the features
  read from the payload are \<^verbatim>\<open>None\<close>, the first call the handler makes is the inference
  call with features \<^verbatim>\<open>None\<close>, and the handler does exactly what it does for the empty
  payload \<^verbatim>\<open>{}\<close>.
\<close>

theorem predict_missing_input_infers_with_None:
  assumes "get_active_model reg name0 = Some am"
      and "body = Absent \<or> (\<exists>s. body = Unparseable s) \<or>
           (\<exists>kvs. body = Parsed (PDict kvs) \<and> map_of kvs ''input'' = None)"
  shows "py_get (py_or (get_json_silent body) (PDict [])) ''input'' = Inr PNone
         \<and> (\<exists>rest. fst (predict reg infer send_message dest name0 body) =
               Infer (active_model_path am) (active_model_handle am) PNone # rest)
         \<and> predict reg infer send_message dest name0 body =
           predict reg infer send_message dest name0 (Parsed (PDict []))"
proof -
  have features: "py_get (py_or (get_json_silent body) (PDict [])) ''input'' = Inr PNone"
    using assms(2) by (auto simp: py_or_def)
  have empty: "py_get (py_or (get_json_silent (Parsed (PDict []))) (PDict [])) ''input'' = Inr PNone"
    by (simp add: py_or_def)
  have same: "predict reg infer send_message dest name0 body =
      predict reg infer send_message dest name0 (Parsed (PDict []))"
    unfolding predict_def Let_def using assms(1) features empty by simp
  have "\<exists>rest. fst (predict reg infer send_message dest name0 body) =
               Infer (active_model_path am) (active_model_handle am) PNone # rest"
    unfolding predict_def Let_def predict_except_def using assms(1) features
    by (simp split: sum.splits)
  with features same show ?thesis by blast
qed

theorem predict_missing_input_infers_with_None_witness:
  "get_active_model example_registry ''m'' =
     Some \<lparr>active_model_path = ''/models/m.pkl'', active_model_handle = 7,
           active_model_info = PDict [(''n_features'', PInt 2)]\<rparr>
   \<and> py_get (py_or (get_json_silent (Unparseable ''{input:'')) (PDict [])) ''input'' = Inr PNone
   \<and> (\<exists>rest. fst (predict example_registry example_infer (example_send True) ''kafka'' ''m''
                      (Unparseable ''{input:'')) = Infer ''/models/m.pkl'' 7 PNone # rest)
   \<and> predict example_registry example_infer (example_send True) ''kafka'' ''m''
        (Unparseable ''{input:'') =
       predict example_registry example_infer (example_send True) ''kafka'' ''m''
        (Parsed (PDict []))
   \<and> snd (predict example_registry example_infer (example_send True) ''kafka'' ''m''
        (Unparseable ''{input:'')) =
       Inr (400, PDict [(''model'', PStr ''m''), (''status'', PStr ''error''),
                        (''error'', PStr ''features is None''),
                        (''expected_input'', PDict [(''n_features'', PInt 2)])])"
proof -
  have active: "get_active_model example_registry ''m'' =
     Some \<lparr>active_model_path = ''/models/m.pkl'', active_model_handle = 7,
           active_model_info = PDict [(''n_features'', PInt 2)]\<rparr>"
    by (simp add: get_active_model_def example_registry_def)
  have body: "Unparseable ''{input:'' = Absent \<or> (\<exists>s. Unparseable ''{input:'' = Unparseable s) \<or>
       (\<exists>kvs. Unparseable ''{input:'' = Parsed (PDict kvs) \<and> map_of kvs ''input'' = None)"
    by simp
  have response: "snd (predict example_registry example_infer (example_send True) ''kafka'' ''m''
        (Unparseable ''{input:'')) =
       Inr (400, PDict [(''model'', PStr ''m''), (''status'', PStr ''error''),
                        (''error'', PStr ''features is None''),
                        (''expected_input'', PDict [(''n_features'', PInt 2)])])"
    by (simp add: predict_def predict_except_def active py_or_def example_infer_def
        example_send_def Let_def)
  note inst = predict_missing_input_infers_with_None
      [where infer = example_infer and send_message = "example_send True"
         and dest = "''kafka''", OF active body, unfolded active_model.select_convs]
  show ?thesis
    using active inst [THEN conjunct1] inst [THEN conjunct2, THEN conjunct1]
      inst [THEN conjunct2, THEN conjunct2] response
    by (intro conjI) assumption+
qed

text \<open>
  Outside the cases of the claim: a JSON body that is truthy and not an object (a
  non-empty array, say) has no \<^verbatim>\<open>get\<close>; the \<^verbatim>\<open>AttributeError\<close> is raised before the
  \<^verbatim>\<open>try\<close>, leaves the handler, and no inference call is made.
\<close>

lemma predict_non_object_body_raises:
  assumes "get_active_model reg name0 = Some am"
  shows "predict reg infer send_message dest name0 (Parsed (PList (x # xs))) =
         ([], Inl (Raised AttributeError ''object has no attribute get''))"
  using assms by (simp add: predict_def py_or_def)

text \<open>
  Claim C7. For a predict call on an active model whose inference returns a result:
  when publishing the result reports failure (the send returns \<^verbatim>\<open>False\<close>), the response
  is HTTP 500 with the error \<^verbatim>\<open>Failed to forward prediction\<close>; and whenever publishing
  does not report success (it returns \<^verbatim>\<open>False\<close> or raises), the response is never the
  status 200 of a forwarded prediction.
\<close>

theorem predict_forward_failure_is_500:
  assumes "get_active_model reg name0 = Some am"
      and "py_get (py_or (get_json_silent body) (PDict [])) ''input'' = Inr features"
      and "infer (active_model_path am) (active_model_handle am) features = Inr result0"
  shows "(send_message (PDict [(''model'', PStr name0), (''status'', PStr ''success''),
              (''prediction'', unwrap_predictions result0)]) name0 = Inr False \<longrightarrow>
            snd (predict reg infer send_message dest name0 body) =
              Inr (500, PDict [(''error'', PStr ''Failed to forward prediction'')]))
       \<and> (send_message (PDict [(''model'', PStr name0), (''status'', PStr ''success''),
              (''prediction'', unwrap_predictions result0)]) name0 \<noteq> Inr True \<longrightarrow>
            (\<forall>b. snd (predict reg infer send_message dest name0 body) \<noteq> Inr (200, b)))"
  unfolding predict_def Let_def predict_except_def using assms
  by (auto split: sum.splits)

theorem predict_forward_failure_is_500_witness:
  "get_active_model example_registry ''m'' =
     Some \<lparr>active_model_path = ''/models/m.pkl'', active_model_handle = 7,
           active_model_info = PDict [(''n_features'', PInt 2)]\<rparr>
   \<and> example_infer ''/models/m.pkl'' 7 (PList [PInt 3, PInt 4]) =
       Inr (PDict [(''predictions'', PList [PInt 1])])
   \<and> example_send False (PDict [(''model'', PStr ''m''), (''status'', PStr ''success''),
         (''prediction'', PList [PInt 1])]) ''m'' = Inr False
   \<and> snd (predict example_registry example_infer (example_send False) ''kafka'' ''m''
        (Parsed (PDict [(''input'', PList [PInt 3, PInt 4])]))) =
       Inr (500, PDict [(''error'', PStr ''Failed to forward prediction'')])"
proof -
  have active: "get_active_model example_registry ''m'' =
     Some \<lparr>active_model_path = ''/models/m.pkl'', active_model_handle = 7,
           active_model_info = PDict [(''n_features'', PInt 2)]\<rparr>"
    by (simp add: get_active_model_def example_registry_def)
  have features: "py_get (py_or (get_json_silent
        (Parsed (PDict [(''input'', PList [PInt 3, PInt 4])]))) (PDict [])) ''input'' =
      Inr (PList [PInt 3, PInt 4])"
    by (simp add: py_or_def)
  have result: "example_infer
      (active_model_path \<lparr>active_model_path = ''/models/m.pkl'', active_model_handle = 7,
           active_model_info = PDict [(''n_features'', PInt 2)]\<rparr>)
      (active_model_handle \<lparr>active_model_path = ''/models/m.pkl'', active_model_handle = 7,
           active_model_info = PDict [(''n_features'', PInt 2)]\<rparr>)
      (PList [PInt 3, PInt 4]) = Inr (PDict [(''predictions'', PList [PInt 1])])"
    by (simp add: example_infer_def)
  from predict_forward_failure_is_500
      [where infer = example_infer and send_message = "example_send False"
         and dest = "''kafka''", OF active features result] active result
  show ?thesis by (simp add: example_send_def)
qed

subsection \<open>Model names\<close>

text \<open>
  Claim C10. There are two distinct items at the models root, the file \<^verbatim>\<open>x.pkl\<close> and the
  directory \<^verbatim>\<open>x\<close>, that get the same registry key \<^verbatim>\<open>x\<close>: after the GitHub listing, and
  after the file system initialization, one descriptor is registered, that of the item
  enumerated last, whichever the order.
\<close>

theorem file_and_directory_collide_on_key:
  "list_github_models (example_github
      [\<lparr>item_name = ''x.pkl'', item_type = ''file'', item_download_url = ''u''\<rparr>,
       \<lparr>item_name = ''x'', item_type = ''dir'', item_download_url = ''''\<rparr>]) =
     Inr [(''x'', [(''source'', ''github''), (''model_name'', ''x''), (''type'', ''dir''),
                   (''model_path'', ''models/x'')])]
   \<and> list_github_models (example_github
      [\<lparr>item_name = ''x'', item_type = ''dir'', item_download_url = ''''\<rparr>,
       \<lparr>item_name = ''x.pkl'', item_type = ''file'', item_download_url = ''u''\<rparr>]) =
     Inr [(''x'', [(''source'', ''github''), (''model_name'', ''x''), (''type'', ''file''),
                   (''model_path'', ''models/x.pkl'')])]
   \<and> available (snd (initialize_from_filesystem ''/models'' example_models_dir
        (\<lambda>p. [''x.pkl'', ''x'']) empty_registry)) =
     [(''x'', [(''source'', ''local_filesystem''), (''model_name'', ''x''),
               (''model_path'', ''/models/x'')])]
   \<and> available (snd (initialize_from_filesystem ''/models'' example_models_dir
        (\<lambda>p. [''x'', ''x.pkl'']) empty_registry)) =
     [(''x'', [(''source'', ''local_filesystem''), (''model_name'', ''x''),
               (''model_path'', ''/models/x.pkl'')])]"
  by (simp add: list_github_models_def list_repo_root_def example_github_def MODELS_ROOT_def
      splitext_def py_rfind_def py_slice_def initialize_from_filesystem_def os_listdir_def
      os_path_exists_def os_path_isdir_def os_path_isfile_def example_models_dir_def
      empty_registry_def path_join_def Let_def register_model_def)

text \<open>
  Claim C3, where the code departs from it. A directory named \<^verbatim>\<open>fire_pytorch.v2\<close> is
  registered under its unchanged name by the GitHub listing, and under the stripped
  name \<^verbatim>\<open>fire_pytorch\<close> by the file system initialization, which applies
  \<^verbatim>\<open>os.path.splitext\<close> to directories as well as to files.
\<close>

theorem filesystem_path_strips_directory_names:
  "list_github_models (example_github
      [\<lparr>item_name = ''fire_pytorch.v2'', item_type = ''dir'', item_download_url = ''''\<rparr>]) =
     Inr [(''fire_pytorch.v2'', [(''source'', ''github''), (''model_name'', ''fire_pytorch.v2''),
            (''type'', ''dir''), (''model_path'', ''models/fire_pytorch.v2'')])]
   \<and> os_path_isdir example_models_dir (path_join ''/models'' ''fire_pytorch.v2'')
   \<and> available (snd (initialize_from_filesystem ''/models'' example_models_dir
        (\<lambda>p. [''fire_pytorch.v2'']) empty_registry)) =
     [(''fire_pytorch'', [(''source'', ''local_filesystem''), (''model_name'', ''fire_pytorch''),
               (''model_path'', ''/models/fire_pytorch.v2'')])]"
  by (simp add: list_github_models_def list_repo_root_def example_github_def MODELS_ROOT_def
      splitext_def py_rfind_def py_slice_def initialize_from_filesystem_def os_listdir_def
      os_path_exists_def os_path_isdir_def os_path_isfile_def example_models_dir_def
      empty_registry_def path_join_def Let_def register_model_def)

subsection \<open>The webhook\<close>

text \<open>
  Claim C5, where the code departs from it. With \<^verbatim>\<open>GITHUB_BRANCH\<close> set to \<^verbatim>\<open>dev\<close>, a
  push to \<^verbatim>\<open>main\<close> (not the configured branch) yields sync events, and a push to the
  configured branch yields none: the handler is called with the fixed filter
  \<^verbatim>\<open>refs/heads/main\<close>.
\<close>

theorem github_webhook_filters_on_main_not_on_configured_branch:
  "branch_ref ''dev'' \<noteq> ''refs/heads/main''
   \<and> snd (github_webhook (Some ''push'')
        (Some \<lparr>push_ref = ''refs/heads/main'',
               push_changes = [(Added, ''models/x.pkl'')]\<rparr>)) = [(Added, ''models/x.pkl'')]
   \<and> snd (github_webhook (Some ''push'')
        (Some \<lparr>push_ref = branch_ref ''dev'',
               push_changes = [(Added, ''models/x.pkl'')]\<rparr>)) = []"
  by (simp add: github_webhook_def handle_push_event_def branch_ref_def MODELS_ROOT_def)

subsection \<open>Uniqueness of names\<close>

lemma initialize_from_filesystem_loop_append:
  "initialize_from_filesystem_loop mp fs (fns @ fns') reg =
   initialize_from_filesystem_loop mp fs fns' (initialize_from_filesystem_loop mp fs fns reg)"
  by (induction fns arbitrary: reg) (simp_all add: Let_def)

lemma distinct_list_github_models:
  "list_github_models gh = Inr models \<Longrightarrow> distinct (map fst models)"
  by (auto simp: list_github_models_def distinct_list_github_models_loop
      split: sum.splits api_json.splits)

lemma distinct_initialize_from_github:
  "distinct (map fst (available reg)) \<Longrightarrow>
   distinct (map fst (available (initialize_from_github gh reg)))"
  by (simp add: initialize_from_github_def distinct_initialize_from_github_loop split: sum.splits)

lemma distinct_initialize_from_filesystem:
  "distinct (map fst (available reg)) \<Longrightarrow>
   distinct (map fst (available (snd (initialize_from_filesystem mp fs listing reg))))"
  by (simp add: initialize_from_filesystem_def distinct_initialize_from_filesystem_loop
      split: sum.splits)

text \<open>
  Claim C1. Model names are unique in the registry through every sequence of
  discoveries: the dict the GitHub listing returns has distinct keys, and registering a
  GitHub listing, a file system listing or a single descriptor into a registry with
  distinct names leaves the names distinct. Re-discovery overwrites: after
  \<^verbatim>\<open>register_model\<close> the name maps to the new descriptor, a name already present adds
  no entry, and after any sequence of discoveries the name of the item discovered last
  maps to the descriptor of that item (last write wins).
\<close>

theorem registry_names_unique_last_write_wins:
  "(list_github_models gh = Inr models \<longrightarrow> distinct (map fst models))
   \<and> (distinct (map fst (available reg)) \<longrightarrow>
        distinct (map fst (available (initialize_from_github gh reg)))
        \<and> distinct (map fst (available (snd (initialize_from_filesystem mp fs listing reg))))
        \<and> distinct (map fst (available (register_model name0 md reg))))
   \<and> map_of (available (register_model name0 md reg)) name0 = Some md
   \<and> (name0 \<in> fst ` set (available reg) \<longrightarrow>
        map fst (available (register_model name0 md reg)) = map fst (available reg))
   \<and> (item_type item = ''file'' \<longrightarrow>
        map_of (list_github_models_loop (items @ [item]) ms) (fst (splitext (item_name item))) =
        Some [(''source'', ''github''), (''model_name'', fst (splitext (item_name item))),
              (''type'', ''file''), (''model_path'', MODELS_ROOT @ ''/'' @ item_name item)])
   \<and> (item_type item = ''dir'' \<longrightarrow>
        map_of (list_github_models_loop (items @ [item]) ms) (item_name item) =
        Some [(''source'', ''github''), (''model_name'', item_name item),
              (''type'', ''dir''), (''model_path'', MODELS_ROOT @ ''/'' @ item_name item)])
   \<and> (os_path_isdir fs (path_join mp f) \<or> os_path_isfile fs (path_join mp f) \<longrightarrow>
        map_of (available (initialize_from_filesystem_loop mp fs (fns @ [f]) reg))
          (fst (splitext f)) =
        Some [(''source'', ''local_filesystem''), (''model_name'', fst (splitext f)),
              (''model_path'', path_join mp f)])"
proof -
  have a: "list_github_models gh = Inr models \<longrightarrow> distinct (map fst models)"
    by (simp add: distinct_list_github_models)
  have b: "distinct (map fst (available reg)) \<longrightarrow>
        distinct (map fst (available (initialize_from_github gh reg)))
        \<and> distinct (map fst (available (snd (initialize_from_filesystem mp fs listing reg))))
        \<and> distinct (map fst (available (register_model name0 md reg)))"
    by (simp add: distinct_initialize_from_github distinct_initialize_from_filesystem
        distinct_dict_set)
  have c: "map_of (available (register_model name0 md reg)) name0 = Some md"
    by (simp add: map_of_dict_set)
  have d: "name0 \<in> fst ` set (available reg) \<longrightarrow>
        map fst (available (register_model name0 md reg)) = map fst (available reg)"
    by (simp add: dict_set_present)
  have e: "item_type item = ''file'' \<longrightarrow>
        map_of (list_github_models_loop (items @ [item]) ms) (fst (splitext (item_name item))) =
        Some [(''source'', ''github''), (''model_name'', fst (splitext (item_name item))),
              (''type'', ''file''), (''model_path'', MODELS_ROOT @ ''/'' @ item_name item)]"
    by (simp add: list_github_models_loop_append Let_def map_of_dict_set)
  have f: "item_type item = ''dir'' \<longrightarrow>
        map_of (list_github_models_loop (items @ [item]) ms) (item_name item) =
        Some [(''source'', ''github''), (''model_name'', item_name item),
              (''type'', ''dir''), (''model_path'', MODELS_ROOT @ ''/'' @ item_name item)]"
    by (simp add: list_github_models_loop_append Let_def map_of_dict_set)
  have g: "os_path_isdir fs (path_join mp f) \<or> os_path_isfile fs (path_join mp f) \<longrightarrow>
        map_of (available (initialize_from_filesystem_loop mp fs (fns @ [f]) reg))
          (fst (splitext f)) =
        Some [(''source'', ''local_filesystem''), (''model_name'', fst (splitext f)),
              (''model_path'', path_join mp f)]"
    by (simp add: initialize_from_filesystem_loop_append Let_def map_of_dict_set)
  from a b c d e f g show ?thesis by (intro conjI)
qed


theorem registry_names_unique_last_write_wins_witness:
  "list_github_models (example_github
      [\<lparr>item_name = ''x.pkl'', item_type = ''file'', item_download_url = ''u''\<rparr>,
       \<lparr>item_name = ''x'', item_type = ''dir'', item_download_url = ''''\<rparr>]) =
     Inr [(''x'', [(''source'', ''github''), (''model_name'', ''x''), (''type'', ''dir''),
                   (''model_path'', ''models/x'')])]
   \<and> distinct (map fst [(''x'', [(''source'', ''github''), (''model_name'', ''x''),
                   (''type'', ''dir''), (''model_path'', ''models/x'')])])
   \<and> distinct (map fst (available example_registry))
   \<and> distinct (map fst (available (initialize_from_github (example_github
        [\<lparr>item_name = ''x.pkl'', item_type = ''file'', item_download_url = ''u''\<rparr>,
         \<lparr>item_name = ''x'', item_type = ''dir'', item_download_url = ''''\<rparr>])
        example_registry)))
   \<and> distinct (map fst (available (snd (initialize_from_filesystem ''/models''
        example_models_dir (\<lambda>p. [''x.pkl'', ''x'']) example_registry))))
   \<and> ''m'' \<in> fst ` set (available example_registry)
   \<and> map_of (available (register_model ''m'' [(''source'', ''github'')] example_registry)) ''m'' =
       Some [(''source'', ''github'')]
   \<and> map fst (available (register_model ''m'' [(''source'', ''github'')] example_registry)) =
       map fst (available example_registry)
   \<and> map_of (list_github_models_loop
        ([\<lparr>item_name = ''x.pkl'', item_type = ''file'', item_download_url = ''u''\<rparr>] @
         [\<lparr>item_name = ''x'', item_type = ''dir'', item_download_url = ''''\<rparr>]) []) ''x'' =
       Some [(''source'', ''github''), (''model_name'', ''x''), (''type'', ''dir''),
             (''model_path'', ''models/x'')]"
  using registry_names_unique_last_write_wins
    [where gh = "example_github
        [\<lparr>item_name = ''x.pkl'', item_type = ''file'', item_download_url = ''u''\<rparr>,
         \<lparr>item_name = ''x'', item_type = ''dir'', item_download_url = ''''\<rparr>]"
       and models = "[(''x'', [(''source'', ''github''), (''model_name'', ''x''),
                   (''type'', ''dir''), (''model_path'', ''models/x'')])]"
       and reg = example_registry and mp = "''/models''" and fs = example_models_dir
       and listing = "\<lambda>p. [''x.pkl'', ''x'']" and ?name0.0 = "''m''"
       and md = "[(''source'', ''github'')]"
       and item = "\<lparr>item_name = ''x'', item_type = ''dir'', item_download_url = ''''\<rparr>"
       and items = "[\<lparr>item_name = ''x.pkl'', item_type = ''file'', item_download_url = ''u''\<rparr>]"
       and ms = "[]" and f = "''x''" and fns = "[''x.pkl'']"]
  by (simp add: list_github_models_def list_repo_root_def example_github_def MODELS_ROOT_def
      splitext_def py_rfind_def py_slice_def example_registry_def Let_def)

subsection \<open>Initialization\<close>

lemma set_dict_set: "set (dict_set k v d) \<subseteq> insert (k, v) (set d)"
proof (induction d)
  case Nil
  then show ?case by simp
next
  case (Cons p d)
  obtain k' v' where p: "p = (k', v')" by (cases p)
  show ?case
  proof (cases "k' = k")
    case True
    with p show ?thesis by auto
  next
    case False
    with p Cons.IH show ?thesis by auto
  qed
qed

lemma entries_initialize_from_filesystem_loop:
  "(k, md) \<in> set (available (initialize_from_filesystem_loop mp fs filenames reg)) \<Longrightarrow>
   (k, md) \<in> set (available reg) \<or>
   (\<exists>f. f \<in> set filenames \<and>
      (os_path_isdir fs (path_join mp f) \<or> os_path_isfile fs (path_join mp f)) \<and>
      k = fst (splitext f) \<and>
      md = [(''source'', ''local_filesystem''), (''model_name'', k),
            (''model_path'', path_join mp f)])"
proof (induction filenames arbitrary: reg)
  case Nil
  then show ?case by simp
next
  case (Cons f filenames)
  show ?case
  proof (cases "os_path_isdir fs (path_join mp f) \<or> os_path_isfile fs (path_join mp f)")
    case False
    with Cons.prems have "(k, md) \<in> set (available (initialize_from_filesystem_loop mp fs filenames reg))"
      by (simp add: Let_def)
    from Cons.IH [OF this] show ?thesis by auto
  next
    case True
    let ?k = "fst (splitext f)"
    let ?md = "[(''source'', ''local_filesystem''), (''model_name'', ?k),
            (''model_path'', path_join mp f)]"
    from True Cons.prems
    have "(k, md) \<in> set (available (initialize_from_filesystem_loop mp fs filenames
              (register_model ?k ?md reg)))"
      by (simp add: Let_def)
    from Cons.IH [OF this]
    consider "(k, md) \<in> set (dict_set ?k ?md (available reg))"
      | "\<exists>f. f \<in> set filenames \<and>
          (os_path_isdir fs (path_join mp f) \<or> os_path_isfile fs (path_join mp f)) \<and>
          k = fst (splitext f) \<and>
          md = [(''source'', ''local_filesystem''), (''model_name'', k),
                (''model_path'', path_join mp f)]"
      by auto
    then show ?thesis
    proof cases
      case 1
      with set_dict_set [of ?k ?md "available reg"]
      have "(k, md) = (?k, ?md) \<or> (k, md) \<in> set (available reg)" by auto
      with True show ?thesis by auto
    next
      case 2
      then show ?thesis by auto
    qed
  qed
qed

lemma available_clear_all [simp]: "available (clear_all reg) = []"
  by (simp add: clear_all_def)

lemma active_clear_all [simp]: "active (clear_all reg) = []"
  by (simp add: clear_all_def)

lemma clear_all_any: "clear_all reg = clear_all reg'"
  by (simp add: clear_all_def)

text \<open>
  Claim C6. \<^verbatim>\<open>initialize_models\<close> first empties both registry maps, so its result does
  not depend on the registry it starts from, and no model is active afterwards. With
  the GitHub source the available map is exactly the dict \<^verbatim>\<open>list_github_models\<close>
  returns (empty when the listing fails). With the local source the registered names
  are exactly the stripped names of the entries of the models directory that are
  directories or regular files, each with the descriptor built from such an entry
  (none when the models path is missing).
\<close>

theorem initialize_models_rebuilds_registry_from_source:
  "initialize_models src gh mp fs listing reg = initialize_models src gh mp fs listing reg'
   \<and> active (snd (initialize_models src gh mp fs listing reg)) = []
   \<and> (src = ''github'' \<longrightarrow>
        available (snd (initialize_models src gh mp fs listing reg)) =
        (case list_github_models gh of Inl e \<Rightarrow> [] | Inr models \<Rightarrow> models))
   \<and> (src \<noteq> ''github'' \<longrightarrow>
        fst ` set (available (snd (initialize_models src gh mp fs listing reg))) =
        (if os_path_isdir fs mp
         then {fst (splitext f) | f. f \<in> set (listing mp) \<and>
                 (os_path_isdir fs (path_join mp f) \<or> os_path_isfile fs (path_join mp f))}
         else {})
        \<and> (\<forall>k md. (k, md) \<in> set (available (snd (initialize_models src gh mp fs listing reg)))
              \<longrightarrow> (\<exists>f. f \<in> set (listing mp) \<and>
                     (os_path_isdir fs (path_join mp f) \<or> os_path_isfile fs (path_join mp f)) \<and>
                     k = fst (splitext f) \<and>
                     md = [(''source'', ''local_filesystem''), (''model_name'', k),
                           (''model_path'', path_join mp f)])))"
proof -
  have same: "initialize_models src gh mp fs listing reg =
      initialize_models src gh mp fs listing reg'"
    unfolding initialize_models_def Let_def by (simp add: clear_all_any [of reg reg'])
  have act: "active (snd (initialize_models src gh mp fs listing reg)) = []"
    by (simp add: initialize_models_def Let_def initialize_from_github_def
        initialize_from_filesystem_def split: sum.splits)
  have gh: "src = ''github'' \<longrightarrow>
        available (snd (initialize_models src gh mp fs listing reg)) =
        (case list_github_models gh of Inl e \<Rightarrow> [] | Inr models \<Rightarrow> models)"
  proof (cases "list_github_models gh")
    case (Inl e)
    then show ?thesis by (simp add: initialize_models_def Let_def initialize_from_github_def)
  next
    case (Inr models)
    have "available (initialize_from_github_loop models (clear_all reg)) =
          available (clear_all reg) @ models"
      by (rule initialize_from_github_loop_fresh)
         (simp_all add: distinct_list_github_models [OF Inr])
    with Inr show ?thesis
      by (simp add: initialize_models_def Let_def initialize_from_github_def)
  qed
  have keys: "src \<noteq> ''github'' \<longrightarrow>
        fst ` set (available (snd (initialize_models src gh mp fs listing reg))) =
        (if os_path_isdir fs mp
         then {fst (splitext f) | f. f \<in> set (listing mp) \<and>
                 (os_path_isdir fs (path_join mp f) \<or> os_path_isfile fs (path_join mp f))}
         else {})"
    by (auto simp: initialize_models_def Let_def initialize_from_filesystem_def os_listdir_def
        os_path_exists_def os_path_isdir_def keys_initialize_from_filesystem_loop
        split: option.splits fsnode.splits)
  have entries: "src \<noteq> ''github'' \<longrightarrow>
         (\<forall>k md. (k, md) \<in> set (available (snd (initialize_models src gh mp fs listing reg)))
              \<longrightarrow> (\<exists>f. f \<in> set (listing mp) \<and>
                     (os_path_isdir fs (path_join mp f) \<or> os_path_isfile fs (path_join mp f)) \<and>
                     k = fst (splitext f) \<and>
                     md = [(''source'', ''local_filesystem''), (''model_name'', k),
                           (''model_path'', path_join mp f)]))"
  proof (intro impI allI)
    fix k md
    assume src: "src \<noteq> ''github''"
      and mem: "(k, md) \<in> set (available (snd (initialize_models src gh mp fs listing reg)))"
    from src mem have dir: "fs mp = Some Directory"
      and "(k, md) \<in> set (available
              (initialize_from_filesystem_loop mp fs (listing mp) (clear_all reg)))"
      by (auto simp: initialize_models_def Let_def initialize_from_filesystem_def os_listdir_def
          os_path_exists_def split: option.splits fsnode.splits if_splits)
    from entries_initialize_from_filesystem_loop [OF this(2)]
    show "\<exists>f. f \<in> set (listing mp) \<and>
           (os_path_isdir fs (path_join mp f) \<or> os_path_isfile fs (path_join mp f)) \<and>
           k = fst (splitext f) \<and>
           md = [(''source'', ''local_filesystem''), (''model_name'', k),
                 (''model_path'', path_join mp f)]"
      by simp
  qed
  from same act gh keys entries show ?thesis by blast
qed


theorem initialize_models_rebuilds_registry_from_source_witness:
  "''local_filesystem'' \<noteq> ''github''
   \<and> initialize_models ''local_filesystem'' (example_github []) ''/models'' example_models_dir
        (\<lambda>p. [''x.pkl'', ''fire_pytorch.v2'', ''ghost'']) example_registry =
       initialize_models ''local_filesystem'' (example_github []) ''/models'' example_models_dir
        (\<lambda>p. [''x.pkl'', ''fire_pytorch.v2'', ''ghost'']) empty_registry
   \<and> active (snd (initialize_models ''local_filesystem'' (example_github []) ''/models''
        example_models_dir (\<lambda>p. [''x.pkl'', ''fire_pytorch.v2'', ''ghost''])
        example_registry)) = []
   \<and> map fst (available (snd (initialize_models ''local_filesystem'' (example_github [])
        ''/models'' example_models_dir (\<lambda>p. [''x.pkl'', ''fire_pytorch.v2'', ''ghost''])
        example_registry))) = [''x'', ''fire_pytorch'']
   \<and> available (snd (initialize_models ''github''
        (example_github
           [\<lparr>item_name = ''rf_model.pkl'', item_type = ''file'', item_download_url = ''u''\<rparr>])
        ''/models'' example_models_dir (\<lambda>p. []) example_registry)) =
       [(''rf_model'', [(''source'', ''github''), (''model_name'', ''rf_model''),
                        (''type'', ''file''), (''model_path'', ''models/rf_model.pkl'')])]"
  using initialize_models_rebuilds_registry_from_source
    [where src = "''local_filesystem''" and gh = "example_github []" and mp = "''/models''"
       and fs = example_models_dir
       and listing = "\<lambda>p. [''x.pkl'', ''fire_pytorch.v2'', ''ghost'']"
       and reg = example_registry and reg' = empty_registry]
    initialize_models_rebuilds_registry_from_source
    [where src = "''github''"
       and gh = "example_github
           [\<lparr>item_name = ''rf_model.pkl'', item_type = ''file'', item_download_url = ''u''\<rparr>]"
       and mp = "''/models''" and fs = example_models_dir and listing = "\<lambda>p. []"
       and reg = example_registry and reg' = empty_registry]
  by (simp add: initialize_models_def initialize_from_filesystem_def os_listdir_def
      os_path_exists_def os_path_isdir_def os_path_isfile_def example_models_dir_def
      path_join_def splitext_def py_rfind_def py_slice_def Let_def
      list_github_models_def list_repo_root_def example_github_def MODELS_ROOT_def
      initialize_from_github_def clear_all_def register_model_def example_registry_def
      empty_registry_def)

subsection \<open>Downloading a directory model\<close>

lemma only_fetched_makedirs:
  "only_fetched gh d fs \<Longrightarrow> os_makedirs fs p = Inr fs' \<Longrightarrow> only_fetched gh d fs'"
  by (auto simp: only_fetched_def os_makedirs_def split: if_splits option.splits fsnode.splits)

lemma only_fetched_write_file:
  "only_fetched gh d fs \<Longrightarrow> raw gh url = Inr c \<Longrightarrow> write_file fs p c = Inr fs' \<Longrightarrow>
   only_fetched gh d fs'"
  by (auto simp: only_fetched_def write_file_def split: if_splits option.splits fsnode.splits)

lemma only_fetched_download_file:
  "only_fetched gh d fs \<Longrightarrow> only_fetched gh d (snd (download_file gh url lp fs))"
  by (auto simp: download_file_def split: sum.splits
      dest: only_fetched_makedirs only_fetched_write_file)

lemma only_fetched_download:
  "only_fetched gh d fs \<Longrightarrow> only_fetched gh d (snd (download_folder depth gh rp lp fs))"
  "only_fetched gh d fs \<Longrightarrow> only_fetched gh d (snd (download_items depth gh rp lp items fs))"
proof (induction depth gh rp lp fs and depth gh rp lp items fs
    rule: download_folder_download_items.induct)
  case (1 gh repo_path local_path fs)
  then show ?case by simp
next
  case (2 depth gh repo_path local_path fs)
  show ?case
  proof (cases "github_api_get gh repo_path")
    case (Inl e)
    with "2.prems" show ?thesis by simp
  next
    case (Inr info)
    show ?thesis
    proof (cases "os_makedirs fs local_path")
      case (Inl e)
      with Inr "2.prems" show ?thesis by (simp split: api_json.splits)
    next
      case mk: (Inr fs1)
      from "2.prems" mk have f1: "only_fetched gh d fs1" by (rule only_fetched_makedirs)
      show ?thesis
      proof (cases info)
        case (JsonList items)
        with Inr mk "2.IH" [OF Inr JsonList mk f1] show ?thesis by simp
      next
        case (JsonDict item)
        with Inr mk f1 show ?thesis by simp
      next
        case JsonOther
        with Inr mk f1 show ?thesis by simp
      qed
    qed
  qed
next
  case (3 depth gh repo_path local_path fs)
  then show ?case by simp
next
  case (4 depth gh repo_path local_path item items fs)
  show ?case
  proof (cases "item_type item = ''file''")
    case True
    let ?r = "download_file gh (item_download_url item) (path_join local_path (item_name item)) fs"
    obtain res fs1 where r: "?r = (res, fs1)" by (cases ?r)
    from "4.prems" have f1: "only_fetched gh d fs1"
      using only_fetched_download_file [of gh d fs "item_download_url item"
          "path_join local_path (item_name item)"] r by simp
    show ?thesis
    proof (cases res)
      case (Inl e)
      with True r f1 show ?thesis by (simp add: Let_def)
    next
      case (Inr u)
      from "4.IH"(1) [OF True refl r [symmetric] Inr f1] True r Inr
      show ?thesis by (simp add: Let_def)
    qed
  next
    case False
    show ?thesis
    proof (cases "item_type item = ''dir''")
      case dir: True
      let ?r = "download_folder depth gh (repo_path @ ''/'' @ item_name item)
                  (path_join local_path (item_name item)) fs"
      obtain res fs1 where r: "?r = (res, fs1)" by (cases ?r)
      from "4.IH"(2) [OF False dir refl refl "4.prems"] r
      have f1: "only_fetched gh d fs1" by simp
      show ?thesis
      proof (cases res)
        case (Inl e)
        with False dir r f1 show ?thesis by (simp add: Let_def)
      next
        case (Inr u)
        from "4.IH"(3) [OF False dir refl refl r [symmetric] Inr f1] False dir r Inr
        show ?thesis by (simp add: Let_def)
      qed
    next
      case other: False
      with False "4.prems" show ?thesis by simp
    qed
  qed
qed


lemma only_fetched_rmtree:
  "only_fetched gh d (\<lambda>p. if is_under d p then None else fs p)"
  by (simp add: only_fetched_def)

text \<open>
  Claim C2. For a model entry whose path the API answers with a listing (a directory)
  and whose destination \<^verbatim>\<open>os.path.join("/models", model_name)\<close> already is a directory:
  \<^verbatim>\<open>download_github_model\<close> is the folder download run on the file system from which the
  destination and everything under it has been removed first; when it returns, it
  returns the destination path; the outcome and the resulting file system do not
  depend on what the destination held before (a clean overwrite); and every regular
  file at or under the destination afterwards holds bytes fetched from a download URL.
\<close>

theorem download_github_model_directory_clean_overwrite:
  assumes "py_index entry ''model_path'' = Inr repo_path"
      and "py_index entry ''model_name'' = Inr name0"
      and "github_api_get gh repo_path = Inr (JsonList items)"
      and "os_path_isdir fs (path_join ''/models'' name0)"
  shows "download_github_model depth gh entry fs =
           (case download_folder depth gh repo_path (path_join ''/models'' name0)
                   (\<lambda>p. if is_under (path_join ''/models'' name0) p then None else fs p) of
              (Inl e, fs') \<Rightarrow> (Inl e, fs')
            | (Inr u, fs') \<Rightarrow> (Inr (path_join ''/models'' name0), fs'))
         \<and> (fst (download_github_model depth gh entry fs) = Inr d \<longrightarrow>
              d = path_join ''/models'' name0)
         \<and> ((\<forall>p. \<not> is_under (path_join ''/models'' name0) p \<longrightarrow> fs2 p = fs p) \<and>
              os_path_isdir fs2 (path_join ''/models'' name0) \<longrightarrow>
              download_github_model depth gh entry fs2 = download_github_model depth gh entry fs)
         \<and> only_fetched gh (path_join ''/models'' name0)
              (snd (download_github_model depth gh entry fs))"
proof -
  let ?dest = "path_join ''/models'' name0"
  let ?cleared = "\<lambda>fs p. if is_under ?dest p then None else fs p"
  let ?run = "\<lambda>fs. case download_folder depth gh repo_path ?dest (?cleared fs) of
              (Inl e, fs') \<Rightarrow> (Inl e, fs')
            | (Inr u, fs') \<Rightarrow> (Inr ?dest, fs')"
  have run: "download_github_model depth gh entry fs' = ?run fs'"
    if "os_path_isdir fs' ?dest" for fs'
    using that assms(1,2,3)
    by (simp add: download_github_model_def Let_def os_path_exists_def os_path_isdir_def
        shutil_rmtree_def split: prod.splits sum.splits)
  have one: "download_github_model depth gh entry fs = ?run fs"
    by (rule run [OF assms(4)])
  have two: "fst (download_github_model depth gh entry fs) = Inr d \<longrightarrow> d = ?dest"
    unfolding one by (simp split: prod.splits sum.splits)
  have three: "(\<forall>p. \<not> is_under ?dest p \<longrightarrow> fs2 p = fs p) \<and> os_path_isdir fs2 ?dest \<longrightarrow>
      download_github_model depth gh entry fs2 = download_github_model depth gh entry fs"
  proof
    assume h: "(\<forall>p. \<not> is_under ?dest p \<longrightarrow> fs2 p = fs p) \<and> os_path_isdir fs2 ?dest"
    then have "?cleared fs2 = ?cleared fs" by (auto simp: fun_eq_iff)
    with run [of fs2] h one show
      "download_github_model depth gh entry fs2 = download_github_model depth gh entry fs"
      by simp
  qed
  have "only_fetched gh ?dest (snd (download_folder depth gh repo_path ?dest (?cleared fs)))"
    by (rule only_fetched_download(1) [OF only_fetched_rmtree])
  then have four: "only_fetched gh ?dest (snd (download_github_model depth gh entry fs))"
    unfolding one by (auto split: prod.splits sum.splits)
  from one two three four show ?thesis by (intro conjI)
qed

theorem download_github_model_directory_clean_overwrite_witness:
  "py_index example_entry ''model_path'' = Inr ''models/fire''
   \<and> py_index example_entry ''model_name'' = Inr ''fire''
   \<and> github_api_get example_repo ''models/fire'' =
       Inr (JsonList [\<lparr>item_name = ''weights.bin'', item_type = ''file'',
                        item_download_url = ''https://raw/weights''\<rparr>])
   \<and> os_path_isdir example_disk (path_join ''/models'' ''fire'')
   \<and> example_disk ''/models/fire/old.bin'' = Some (RegFile ''stale'')
   \<and> fst (download_github_model 3 example_repo example_entry example_disk) = Inr ''/models/fire''
   \<and> snd (download_github_model 3 example_repo example_entry example_disk)
        ''/models/fire/old.bin'' = None
   \<and> snd (download_github_model 3 example_repo example_entry example_disk)
        ''/models/fire/weights.bin'' = Some (RegFile ''W'')
   \<and> only_fetched example_repo (path_join ''/models'' ''fire'')
        (snd (download_github_model 3 example_repo example_entry example_disk))"
proof -
  have h1: "py_index example_entry ''model_path'' = Inr ''models/fire''"
    by (simp add: py_index_def example_entry_def)
  have h2: "py_index example_entry ''model_name'' = Inr ''fire''"
    by (simp add: py_index_def example_entry_def)
  have h3: "github_api_get example_repo ''models/fire'' =
       Inr (JsonList [\<lparr>item_name = ''weights.bin'', item_type = ''file'',
                        item_download_url = ''https://raw/weights''\<rparr>])"
    by (simp add: github_api_get_def example_repo_def)
  have h4: "os_path_isdir example_disk (path_join ''/models'' ''fire'')"
    by (simp add: os_path_isdir_def example_disk_def path_join_def)
  have old: "example_disk ''/models/fire/old.bin'' = Some (RegFile ''stale'')"
    by (simp add: example_disk_def)
  note inst = download_github_model_directory_clean_overwrite
      [OF h1 h2 h3 h4, where depth = 3 and d = "''/models/fire''" and ?fs2.0 = example_disk]
  have run: "download_folder 3 example_repo ''models/fire'' ''/models/fire''
       (\<lambda>p. if is_under ''/models/fire'' p then None else example_disk p) =
     (Inr (), (\<lambda>p. if is_under ''/models/fire'' p then None else example_disk p)
        (''/models/fire'' \<mapsto> Directory, ''/models/fire/weights.bin'' \<mapsto> RegFile ''W''))"
    by (simp add: eval_nat_numeral github_api_get_def example_repo_def os_makedirs_def
        is_under_def path_join_def download_file_def dirname_def py_rfind_def rstrip_slash_def
        write_file_def Let_def)
  have dest: "path_join ''/models'' ''fire'' = ''/models/fire''"
    by (simp add: path_join_def)
  from inst [THEN conjunct1] run dest
  have res: "download_github_model 3 example_repo example_entry example_disk =
     (Inr ''/models/fire'', (\<lambda>p. if is_under ''/models/fire'' p then None else example_disk p)
        (''/models/fire'' \<mapsto> Directory, ''/models/fire/weights.bin'' \<mapsto> RegFile ''W''))"
    by simp
  have a: "fst (download_github_model 3 example_repo example_entry example_disk) =
      Inr ''/models/fire''"
    by (simp add: res)
  have b: "snd (download_github_model 3 example_repo example_entry example_disk)
        ''/models/fire/old.bin'' = None"
    by (simp add: res is_under_def path_join_def)
  have c: "snd (download_github_model 3 example_repo example_entry example_disk)
        ''/models/fire/weights.bin'' = Some (RegFile ''W'')"
    by (simp add: res)
  from h1 h2 h3 h4 old a b c inst [THEN conjunct2, THEN conjunct2, THEN conjunct2]
  show ?thesis by (intro conjI)
qed


end
